theory Spec2Isabelle
  imports Main "HOL-Library.Sublist" "HOL-Library.Word"
begin

section \<open>Strings of the runtime\<close>

text \<open>
  A JavaScript string is a sequence of 16-bit code units. A literal of the source, whose
  characters are all below U+0100, is written \<open>lit ''...''\<close>.
\<close>

type_synonym code_unit = "16 word"

type_synonym jstring = "code_unit list"

definition unit_of :: "char \<Rightarrow> code_unit" where
  "unit_of c = of_nat (of_char c)"

definition lit :: "string \<Rightarrow> jstring" where
  "lit s = map unit_of s"

text \<open>
  \<open>trim\<close> removes white space and line terminators from both ends: TAB, LF, VT, FF, CR,
  SPACE, U+00A0, U+1680, U+2000 to U+200A, U+2028, U+2029, U+202F, U+205F, U+3000, U+FEFF.
\<close>

definition is_whitespace :: "code_unit \<Rightarrow> bool" where
  "is_whitespace u =
     (let n = unat u
      in (9 \<le> n \<and> n \<le> 13) \<or> n = 32 \<or> n = 160 \<or> n = 5760 \<or> (8192 \<le> n \<and> n \<le> 8202)
         \<or> n = 8232 \<or> n = 8233 \<or> n = 8239 \<or> n = 8287 \<or> n = 12288 \<or> n = 65279)"

definition trim :: "jstring \<Rightarrow> jstring" where
  "trim s = rev (dropWhile is_whitespace (rev (dropWhile is_whitespace s)))"


text \<open>\<open>a || b\<close> on a possibly missing string: \<open>undefined\<close>, \<open>null\<close> and \<open>""\<close> are falsy.\<close>

definition js_or :: "jstring option \<Rightarrow> jstring \<Rightarrow> jstring" where
  "js_or a b = (case a of None \<Rightarrow> b | Some x \<Rightarrow> if x = [] then b else x)"

text \<open>\<open>!s.trim()\<close>: nothing is left of the text after trimming.\<close>

definition blank :: "jstring \<Rightarrow> bool" where
  "blank s = (trim s = [])"

text \<open>\<open>Date.now().toString()\<close>: the decimal numeral of an integer.\<close>

definition digit_char :: "nat \<Rightarrow> code_unit" where
  "digit_char d = of_nat (48 + d)"

fun digits :: "nat \<Rightarrow> jstring" where
  "digits n = (if n < 10 then [digit_char n] else digits (n div 10) @ [digit_char (n mod 10)])"

declare digits.simps [simp del]

definition toString :: "int \<Rightarrow> jstring" where
  "toString i = (if i < 0 then unit_of CHR ''-'' # digits (nat (- i)) else digits (nat i))"

subsection \<open>Lower case\<close>

text \<open>
  \<open>toLowerCase\<close> follows the case tables of the runtime, which are no part of the
  repository: the filter below takes it as its argument \<open>lower\<close>. On texts whose code
  units are all below U+0100 (\<open>latin1\<close>) the language standard makes it work unit by
  unit, as \<open>lower_unit\<close>: A-Z and U+00C0 to U+00DE, U+00D7 apart, move up by 32.
\<close>

definition latin1 :: "jstring \<Rightarrow> bool" where
  "latin1 s = list_all (\<lambda>u. unat u < 256) s"








section \<open>Numbers of the runtime\<close>

text \<open>
  A JavaScript number is a double. The numbers of the page (\<open>likes\<close>, the clock
  readings) are modelled where they hold an integer, as \<^typ>\<open>int\<close>. Up to \<open>2^53\<close> in
  magnitude every integer is a double; beyond, a sum or difference is rounded to the
  nearest double, to the one with the even significand when two are equally near
  (\<open>round_double\<close>, for results below \<open>2^1024\<close>). \<open>width\<close> is the number of binary
  digits.
\<close>

fun width :: "nat \<Rightarrow> nat" where
  "width n = (if n = 0 then 0 else Suc (width (n div 2)))"

declare width.simps [simp del]

definition round_double :: "int \<Rightarrow> int" where
  "round_double m =
     (let a = nat \<bar>m\<bar>
      in if a \<le> 2 ^ 53 then m
         else
           let e = width a - 53; q = a div 2 ^ e; r = a mod 2 ^ e;
               q' = (if 2 ^ e < 2 * r \<or> (2 * r = 2 ^ e \<and> odd q) then q + 1 else q)
           in sgn m * int (q' * 2 ^ e))"

definition js_add :: "int \<Rightarrow> int \<Rightarrow> int" where
  "js_add x y = round_double (x + y)"

definition js_sub :: "int \<Rightarrow> int \<Rightarrow> int" where
  "js_sub x y = round_double (x - y)"

section \<open>Types of \<open>src/app/page.tsx\<close>\<close>

record comment =
  id_comment :: jstring
  user_name :: jstring
  text_comment :: jstring
  created_at_comment :: jstring

text \<open>
  The fields both variants of the page share come first (they are the whole \<open>Prompt\<close>
  of the library variant); the social page adds authorship, likes and comments.
  \<open>category\<close> is \<open>None\<close> when the row carries \<open>null\<close>.
\<close>

record lib_prompt =
  id_prompt :: jstring
  title :: jstring
  content :: jstring
  category :: "jstring option"
  created_at :: jstring

record prompt = lib_prompt +
  author_id :: jstring
  author_name :: jstring
  likes :: int
  liked_by_user :: bool
  comments :: "comment list"

datatype toast_kind = Success | Error

record toast =
  id_toast :: int
  message :: jstring
  type_toast :: toast_kind

record form =
  title_form :: jstring
  content_form :: jstring
  category_form :: jstring

text \<open>The session user of the identity provider, as far as the page reads it.\<close>

record user =
  id_user :: jstring
  full_name :: "jstring option"
  email :: "jstring option"
  avatar_url :: "jstring option"

record app_state =
  user :: "user option"
  prompts :: "prompt list"
  loading :: bool
  search :: jstring
  activeTab :: jstring
  showForm :: bool
  toasts :: "toast list"
  form :: form
  commentInputs :: "jstring \<rightharpoonup> jstring"

definition empty_form :: form where
  "empty_form = \<lparr>title_form = [], content_form = [], category_form = []\<rparr>"

definition initial :: app_state where
  "initial = \<lparr>user = None, prompts = [], loading = True, search = [], activeTab = lit ''All'',
     showForm = False, toasts = [], form = empty_form, commentInputs = Map.empty\<rparr>"

section \<open>Toasts\<close>

text \<open>\<open>addToast\<close> reads the clock (\<open>now\<close>) for the id and appends to the end.\<close>

definition addToast :: "int \<Rightarrow> jstring \<Rightarrow> toast_kind \<Rightarrow> toast list \<Rightarrow> toast list" where
  "addToast now msg kind prev = prev @ [\<lparr>id_toast = now, message = msg, type_toast = kind\<rparr>]"

definition removeToast :: "int \<Rightarrow> toast list \<Rightarrow> toast list" where
  "removeToast i prev = filter (\<lambda>t. id_toast t \<noteq> i) prev"

section \<open>Actions of \<open>src/app/page.tsx\<close>\<close>

text \<open>
  Each handler takes the readings of the outside world it makes: \<open>now\<close> for
  \<open>Date.now()\<close> in an id, \<open>stamp\<close> for \<open>new Date().toISOString()\<close>, \<open>tnow\<close> for the
  \<open>Date.now()\<close> inside \<open>addToast\<close>, \<open>ok\<close> for the answer of the \<open>confirm\<close> dialog.
\<close>

definition display_name :: "user \<Rightarrow> jstring" where
  "display_name u =
     js_or (full_name u)
       (js_or (map_option (takeWhile (\<lambda>c. c \<noteq> unit_of CHR ''@'')) (email u)) (lit ''Anonymous''))"

definition handleSubmit :: "int \<Rightarrow> jstring \<Rightarrow> int \<Rightarrow> app_state \<Rightarrow> app_state" where
  "handleSubmit now stamp tnow s =
     (case user s of
        None \<Rightarrow> s\<lparr>toasts := addToast tnow (lit ''Please login to share prompts'') Error (toasts s)\<rparr>
      | Some u \<Rightarrow>
          if blank (title_form (form s)) \<or> blank (content_form (form s)) then s
          else
            let newPrompt = \<lparr>id_prompt = toString now, title = title_form (form s),
                  content = content_form (form s), category = Some (category_form (form s)),
                  created_at = stamp, author_id = id_user u, author_name = display_name u,
                  likes = 0, liked_by_user = False, comments = []\<rparr>
            in s\<lparr>prompts := newPrompt # prompts s, form := empty_form, showForm := False,
                 toasts := addToast tnow (lit ''Prompt Shared!'') Success (toasts s)\<rparr>)"

definition handleDelete :: "bool \<Rightarrow> jstring \<Rightarrow> int \<Rightarrow> app_state \<Rightarrow> app_state" where
  "handleDelete ok i tnow s =
     (if \<not> ok then s
      else s\<lparr>prompts := filter (\<lambda>p. id_prompt p \<noteq> i) (prompts s),
             toasts := addToast tnow (lit ''Prompt deleted'') Success (toasts s)\<rparr>)"

text \<open>The card of a prompt shows the delete button under this condition only.\<close>

definition delete_shown :: "user option \<Rightarrow> prompt \<Rightarrow> bool" where
  "delete_shown usr p = (case usr of None \<Rightarrow> False | Some u \<Rightarrow> author_id p = id_user u)"

definition like_one :: "prompt \<Rightarrow> prompt" where
  "like_one p =
     (let isLiked = \<not> liked_by_user p
      in p\<lparr>liked_by_user := isLiked,
           likes := (if isLiked then js_add (likes p) 1 else js_sub (likes p) 1)\<rparr>)"

definition handleLike :: "jstring \<Rightarrow> int \<Rightarrow> app_state \<Rightarrow> app_state" where
  "handleLike i tnow s =
     (case user s of
        None \<Rightarrow> s\<lparr>toasts := addToast tnow (lit ''Login to like posts'') Error (toasts s)\<rparr>
      | Some u \<Rightarrow> s\<lparr>prompts := map (\<lambda>p. if id_prompt p = i then like_one p else p) (prompts s)\<rparr>)"

definition comment_name :: "user \<Rightarrow> jstring" where
  "comment_name u = js_or (full_name u) (lit ''User'')"

definition handleCommentSubmit :: "jstring \<Rightarrow> int \<Rightarrow> jstring \<Rightarrow> int \<Rightarrow> app_state \<Rightarrow> app_state" where
  "handleCommentSubmit i now stamp tnow s =
     (case user s of
        None \<Rightarrow> s\<lparr>toasts := addToast tnow (lit ''Login to comment'') Error (toasts s)\<rparr>
      | Some u \<Rightarrow>
          (case commentInputs s i of
             None \<Rightarrow> s
           | Some txt \<Rightarrow>
               if blank txt then s
               else
                 let newComment = \<lparr>id_comment = toString now, user_name = comment_name u,
                       text_comment = txt, created_at_comment = stamp\<rparr>
                 in s\<lparr>prompts := map (\<lambda>p. if id_prompt p = i
                                            then p\<lparr>comments := comments p @ [newComment]\<rparr> else p)
                                     (prompts s),
                      commentInputs := (commentInputs s)(i \<mapsto> [])\<rparr>))"

definition handleCopy :: "int \<Rightarrow> app_state \<Rightarrow> app_state" where
  "handleCopy tnow s = s\<lparr>toasts := addToast tnow (lit ''Copied to clipboard'') Success (toasts s)\<rparr>"

definition handleLogout :: "int \<Rightarrow> app_state \<Rightarrow> app_state" where
  "handleLogout tnow s =
     s\<lparr>user := None, toasts := addToast tnow (lit ''Logged out successfully'') Success (toasts s)\<rparr>"

section \<open>The filtered view\<close>




section \<open>Loading\<close>

text \<open>
  A row of the list the persistence route answers with: the shared fields, and the
  social fields where the row carries them. \<open>getTime\<close> stands for
  \<open>new Date(_).getTime()\<close>, the runtime's date parser.
\<close>

record raw_prompt = lib_prompt +
  raw_author_id :: "jstring option"
  raw_author_name :: "jstring option"
  raw_likes :: "int option"
  raw_comments :: "comment list option"

datatype 'a fetch_result = FetchFailed | FetchJson "'a list"

definition social :: "raw_prompt \<Rightarrow> prompt" where
  "social p = \<lparr>id_prompt = id_prompt p, title = title p, content = content p,
     category = category p, created_at = created_at p,
     author_id = js_or (raw_author_id p) (lit ''other_user''),
     author_name = js_or (raw_author_name p) (lit ''Anonymous''),
     likes = (case raw_likes p of None \<Rightarrow> 0 | Some n \<Rightarrow> n),
     liked_by_user = False,
     comments = (case raw_comments p of None \<Rightarrow> [] | Some cs \<Rightarrow> cs)\<rparr>"

text \<open>Newest first; the sort is stable, so rows of one instant keep their order.\<close>

definition newest_first :: "(jstring \<Rightarrow> int) \<Rightarrow> 'a lib_prompt_scheme list \<Rightarrow> 'a lib_prompt_scheme list" where
  "newest_first getTime ps = sort_key (\<lambda>p. - getTime (created_at p)) ps"

definition mock_data :: "user option \<Rightarrow> jstring \<Rightarrow> jstring \<Rightarrow> prompt list" where
  "mock_data usr stamp1 stamp2 =
     [\<lparr>id_prompt = lit ''1'', title = lit ''Midjourney Photorealism'',
       content = lit ''Hyper realistic photo of...'', category = Some (lit ''Art''), created_at = stamp1,
       author_id = lit ''other_user'', author_name = lit ''DesignGuru'',
       likes = 45, liked_by_user = False, comments = []\<rparr>,
      \<lparr>id_prompt = lit ''2'', title = lit ''Python Debugger'',
       content = lit ''Act as a python expert...'', category = Some (lit ''Code''), created_at = stamp2,
       author_id = js_or (map_option id_user usr) (lit ''demo_id''),
       author_name = js_or (case usr of None \<Rightarrow> None | Some u \<Rightarrow> full_name u) (lit ''You''),
       likes = 12, liked_by_user = True, comments = []\<rparr>]"

definition loadPrompts ::
    "(jstring \<Rightarrow> int) \<Rightarrow> raw_prompt fetch_result \<Rightarrow> jstring \<Rightarrow> jstring \<Rightarrow> app_state \<Rightarrow> app_state" where
  "loadPrompts getTime res stamp1 stamp2 s =
     (case res of
        FetchJson data \<Rightarrow> s\<lparr>prompts := newest_first getTime (map social data), loading := False\<rparr>
      | FetchFailed \<Rightarrow> s\<lparr>prompts := mock_data (user s) stamp1 stamp2, loading := False\<rparr>)"

section \<open>Runs of the page\<close>

text \<open>Everything that changes the state of the page: its handlers and its setters.\<close>

datatype command =
    Load "raw_prompt fetch_result" jstring jstring
  | Submit int jstring int
  | Delete bool jstring int
  | Like jstring int
  | CommentSubmit jstring int jstring int
  | Copy int
  | Logout int
  | RemoveToast int
  | SetUser "user option"
  | SetForm form
  | SetCommentInput jstring jstring
  | SetSearch jstring
  | SetActiveTab jstring
  | SetShowForm bool

fun step :: "(jstring \<Rightarrow> int) \<Rightarrow> command \<Rightarrow> app_state \<Rightarrow> app_state" where
  "step g (Load res stamp1 stamp2) s = loadPrompts g res stamp1 stamp2 s"
| "step g (Submit now stamp tnow) s = handleSubmit now stamp tnow s"
| "step g (Delete ok i tnow) s = handleDelete ok i tnow s"
| "step g (Like i tnow) s = handleLike i tnow s"
| "step g (CommentSubmit i now stamp tnow) s = handleCommentSubmit i now stamp tnow s"
| "step g (Copy tnow) s = handleCopy tnow s"
| "step g (Logout tnow) s = handleLogout tnow s"
| "step g (RemoveToast i) s = s\<lparr>toasts := removeToast i (toasts s)\<rparr>"
| "step g (SetUser usr) s = s\<lparr>user := usr\<rparr>"
| "step g (SetForm f) s = s\<lparr>form := f\<rparr>"
| "step g (SetCommentInput i txt) s = s\<lparr>commentInputs := (commentInputs s)(i \<mapsto> txt)\<rparr>"
| "step g (SetSearch txt) s = s\<lparr>search := txt\<rparr>"
| "step g (SetActiveTab tab) s = s\<lparr>activeTab := tab\<rparr>"
| "step g (SetShowForm b) s = s\<lparr>showForm := b\<rparr>"

definition run :: "(jstring \<Rightarrow> int) \<Rightarrow> command list \<Rightarrow> app_state" where
  "run g cs = foldl (\<lambda>s c. step g c s) initial cs"

section \<open>The library variant (\<open>src/unnamed/part_000\<close>)\<close>

text \<open>
  The older page has no user, likes or comments and talks to the persistence route.
  \<open>posted\<close> and \<open>deleted\<close> say whether the request resolved (a \<open>fetch\<close> that throws
  is \<open>False\<close>); \<open>reload\<close> is what the list request of the following reload gives.
\<close>

record lib_state =
  lib_prompts :: "lib_prompt list"
  lib_loading :: bool
  isSubmitting :: bool
  lib_search :: jstring
  lib_activeTab :: jstring
  lib_form :: form
  lib_showForm :: bool
  lib_toasts :: "toast list"

definition lib_loadPrompts ::
    "(jstring \<Rightarrow> int) \<Rightarrow> bool \<Rightarrow> lib_prompt fetch_result \<Rightarrow> int \<Rightarrow> lib_state \<Rightarrow> lib_state" where
  "lib_loadPrompts getTime silent res tnow s =
     (let s' = (case res of
                  FetchJson data \<Rightarrow> s\<lparr>lib_prompts := newest_first getTime data\<rparr>
                | FetchFailed \<Rightarrow>
                    s\<lparr>lib_toasts := addToast tnow (lit ''Failed to load prompts'') Error (lib_toasts s)\<rparr>)
      in if silent then s' else s'\<lparr>lib_loading := False\<rparr>)"

definition lib_handleSubmit ::
    "(jstring \<Rightarrow> int) \<Rightarrow> int \<Rightarrow> bool \<Rightarrow> lib_prompt fetch_result \<Rightarrow> int \<Rightarrow> lib_state \<Rightarrow> lib_state" where
  "lib_handleSubmit getTime tnow posted reload tnow2 s =
     (if blank (title_form (lib_form s)) \<or> blank (content_form (lib_form s))
      then s\<lparr>lib_toasts := addToast tnow (lit ''Title and content are required'') Error (lib_toasts s)\<rparr>
      else if posted
      then (lib_loadPrompts getTime True reload tnow2
              (s\<lparr>lib_form := empty_form, lib_showForm := False,
                 lib_toasts := addToast tnow (lit ''Prompt saved to library'') Success (lib_toasts s)\<rparr>))
           \<lparr>isSubmitting := False\<rparr>
      else s\<lparr>lib_toasts := addToast tnow (lit ''Failed to save prompt'') Error (lib_toasts s),
             isSubmitting := False\<rparr>)"

definition lib_handleDelete ::
    "(jstring \<Rightarrow> int) \<Rightarrow> bool \<Rightarrow> jstring \<Rightarrow> bool \<Rightarrow> int \<Rightarrow> lib_prompt fetch_result \<Rightarrow> int
      \<Rightarrow> lib_state \<Rightarrow> lib_state" where
  "lib_handleDelete getTime ok i deleted tnow reload tnow2 s =
     (if \<not> ok then s
      else
        let s1 = s\<lparr>lib_prompts := filter (\<lambda>p. id_prompt p \<noteq> i) (lib_prompts s)\<rparr>
        in if deleted
           then s1\<lparr>lib_toasts := addToast tnow (lit ''Prompt deleted'') Success (lib_toasts s1)\<rparr>
           else lib_loadPrompts getTime True reload tnow2
                  (s1\<lparr>lib_toasts := addToast tnow (lit ''Could not delete prompt'') Error (lib_toasts s1)\<rparr>))"

definition lib_initial :: lib_state where
  "lib_initial = \<lparr>lib_prompts = [], lib_loading = True, isSubmitting = False, lib_search = [],
     lib_activeTab = lit ''All'', lib_form = empty_form, lib_showForm = False, lib_toasts = []\<rparr>"

section \<open>Sample data\<close>

definition alice :: user where
  "alice = \<lparr>id_user = lit ''u-alice'', full_name = Some (lit ''Alice''), email = Some (lit ''alice@example.org''),
     avatar_url = None\<rparr>"

definition signed_in :: app_state where
  "signed_in = initial\<lparr>user := Some alice, prompts := mock_data (Some alice) (lit ''t1'') (lit ''t2''),
     loading := False\<rparr>"

definition sample_toasts :: "toast list" where
  "sample_toasts =
     [\<lparr>id_toast = 1000, message = lit ''Prompt Shared!'', type_toast = Success\<rparr>,
      \<lparr>id_toast = 1001, message = lit ''Login to like posts'', type_toast = Error\<rparr>]"

text \<open>A run of \<open>addToast\<close> calls, each with its clock reading, message and kind.\<close>

definition addToasts :: "(int \<times> jstring \<times> toast_kind) list \<Rightarrow> toast list \<Rightarrow> toast list" where
  "addToasts calls ts = foldl (\<lambda>q (now, msg, kind). addToast now msg kind q) ts calls"

definition toast_of :: "int \<times> jstring \<times> toast_kind \<Rightarrow> toast" where
  "toast_of c = \<lparr>id_toast = fst c, message = fst (snd c), type_toast = snd (snd c)\<rparr>"

definition blank_comment :: app_state where
  "blank_comment = signed_in\<lparr>commentInputs := [(lit ''1'') \<mapsto> (lit ''   '')]\<rparr>"

definition blank_title :: app_state where
  "blank_title = signed_in\<lparr>form := \<lparr>title_form = lit ''  '', content_form = lit ''Act as...'',
     category_form = lit ''Code''\<rparr>\<rparr>"

definition negative_row :: raw_prompt where
  "negative_row = \<lparr>id_prompt = lit ''7'', title = lit ''T'', content = lit ''C'', category = None,
     created_at = lit ''2024-01-01T00:00:00.000Z'', raw_author_id = None, raw_author_name = None,
     raw_likes = Some (- 1), raw_comments = None\<rparr>"

definition sample_getTime :: "jstring \<Rightarrow> int" where
  "sample_getTime d = int (length d)"

definition five_likes :: app_state where
  "five_likes = signed_in\<lparr>prompts :=
     [\<lparr>id_prompt = lit ''1'', title = lit ''Midjourney Photorealism'',
       content = lit ''Hyper realistic photo of...'', category = Some (lit ''Art''), created_at = lit ''t1'',
       author_id = lit ''other_user'', author_name = lit ''DesignGuru'',
       likes = 5, liked_by_user = False, comments = []\<rparr>]\<rparr>"

definition big_likes :: app_state where
  "big_likes = signed_in\<lparr>prompts :=
     [\<lparr>id_prompt = lit ''1'', title = lit ''Midjourney Photorealism'',
       content = lit ''Hyper realistic photo of...'', category = Some (lit ''Art''), created_at = lit ''t1'',
       author_id = lit ''other_user'', author_name = lit ''DesignGuru'',
       likes = 9007199254740992, liked_by_user = False, comments = []\<rparr>]\<rparr>"



definition sample_run :: "command list" where
  "sample_run = [SetUser (Some alice), Load FetchFailed (lit ''t1'') (lit ''t2''), Like (lit ''2'') 5, Like (lit ''2'') 6,
     Like (lit ''1'') 7]"

section \<open>Notions of the specification\<close>

text \<open>A run of \<open>handleLike\<close> calls on one id, each with its clock reading.\<close>

definition toggleLikes :: "jstring \<Rightarrow> int list \<Rightarrow> app_state \<Rightarrow> app_state" where
  "toggleLikes i ticks s = foldl (\<lambda>s tnow. handleLike i tnow s) s ticks"

text \<open>
  The net number of like transitions of \<open>n\<close> toggles in a row that start from the flag
  \<open>b\<close>: a toggle that sets the flag counts 1, a toggle that clears it counts -1.
\<close>

fun net_likes :: "bool \<Rightarrow> nat \<Rightarrow> int" where
  "net_likes b 0 = 0"
| "net_likes b (Suc n) = (if b then - 1 else 1) + net_likes (\<not> b) n"

text \<open>A load whose rows carry no negative \<open>likes\<close>; every other command passes.\<close>

fun no_negative_likes :: "command \<Rightarrow> bool" where
  "no_negative_likes (Load (FetchJson data) stamp1 stamp2) =
     list_all (\<lambda>r. case raw_likes r of None \<Rightarrow> True | Some n \<Rightarrow> 0 \<le> n) data"
| "no_negative_likes c = True"





text \<open>What the likes of the store keep to: a liked prompt has at least one like.\<close>

definition likes_inv :: "prompt \<Rightarrow> bool" where
  "likes_inv p = ((if liked_by_user p then 1 else 0) \<le> likes p)"

text \<open>Where the next like or unlike of a prompt is exact.\<close>

definition exact_range :: "prompt \<Rightarrow> bool" where
  "exact_range p =
     (if liked_by_user p then - (2 ^ 53) < likes p \<and> likes p \<le> 2 ^ 53
      else - (2 ^ 53) \<le> likes p \<and> likes p < 2 ^ 53)"

section \<open>Facts about strings and numbers\<close>

lemma of_char_less: "(of_char c :: nat) < 256"
proof -
  have "(of_char c :: nat) \<in> range of_char" by simp
  then show ?thesis unfolding range_nat_of_char by simp
qed

lemma unat_unit_of: "unat (unit_of c) = of_char c"
proof -
  have "(of_char c :: nat) < 2 ^ LENGTH(16)"
    by (rule less_trans [OF of_char_less]) simp
  then show ?thesis
    unfolding unit_of_def by (simp add: unat_of_nat)
qed

lemma unit_of_eq_iff [simp]: "(unit_of a = unit_of b) = (a = b)"
proof
  assume "unit_of a = unit_of b"
  then have "unat (unit_of a) = unat (unit_of b)" by simp
  then show "a = b" by (simp add: unat_unit_of)
qed simp

lemma lit_eq_iff [simp]: "(lit a = lit b) = (a = b)"
  unfolding lit_def by (simp add: inj_map_eq_map inj_def)

lemma lit_Nil [simp]: "lit [] = []"
  by (simp add: lit_def)

lemma lit_eq_Nil [simp]: "(lit s = []) = (s = [])"
  by (simp add: lit_def)

lemma latin1_lit [simp]: "latin1 (lit s)"
  by (simp add: latin1_def lit_def list_all_iff unat_unit_of of_char_less)

lemma latin1_append [simp]: "latin1 (a @ b) = (latin1 a \<and> latin1 b)"
  by (simp add: latin1_def)

lemma width_lower: "0 < n \<Longrightarrow> 2 ^ (width n - 1) \<le> n"
proof (induction n rule: width.induct)
  case (1 n)
  show ?case
  proof (cases "n div 2 = 0")
    case True
    then show ?thesis using "1.prems"
      by (simp add: width.simps [of n] width.simps [of 0])
  next
    case False
    then have "2 ^ (width (n div 2) - 1) \<le> n div 2"
      using "1.IH" "1.prems" by simp
    moreover have "0 < width (n div 2)"
      using False by (simp add: width.simps [of "n div 2"])
    ultimately have "2 ^ width (n div 2) \<le> 2 * (n div 2)"
      by (cases "width (n div 2)") simp_all
    then show ?thesis using "1.prems"
      by (simp add: width.simps [of n])
  qed
qed

lemma round_double_exact: "\<bar>m\<bar> \<le> 2 ^ 53 \<Longrightarrow> round_double m = m"
  by (simp add: round_double_def le_nat_iff nat_le_iff)

lemma round_double_nonneg: "0 \<le> m \<Longrightarrow> 0 \<le> round_double m"
  by (simp add: round_double_def Let_def)

lemma round_double_pos:
  assumes "1 \<le> m"
  shows "1 \<le> round_double m"
proof (cases "nat \<bar>m\<bar> \<le> 2 ^ 53")
  case True
  then show ?thesis using assms by (simp add: round_double_def)
next
  case False
  define a where "a = nat \<bar>m\<bar>"
  define e where "e = width a - 53"
  have "0 < a" using assms by (simp add: a_def)
  then have w: "2 ^ (width a - 1) \<le> a" by (rule width_lower)
  have "(2::nat) ^ e \<le> 2 ^ (width a - 1)"
    by (rule power_increasing) (simp_all add: e_def)
  from this w have "2 ^ e \<le> a" by (rule order_trans)
  then have d: "1 \<le> a div 2 ^ e"
    by (simp add: div_greater_zero_iff Suc_le_eq)
  define q' where "q' = (if 2 ^ e < 2 * (a mod 2 ^ e) \<or> (2 * (a mod 2 ^ e) = 2 ^ e \<and> odd (a div 2 ^ e))
                  then a div 2 ^ e + 1 else a div 2 ^ e)"
  have "1 \<le> q'" using d by (simp add: q'_def)
  then have "0 < q' * 2 ^ e" by simp
  then have p: "1 \<le> int (q' * 2 ^ e)" by linarith
  have "round_double m = sgn m * int (q' * 2 ^ e)"
    using False
    unfolding round_double_def Let_def a_def [symmetric] e_def [symmetric] q'_def
    by simp
  moreover have "sgn m = 1" using assms by simp
  ultimately show ?thesis using p by simp
qed

section \<open>The notification queue\<close>

lemma addToasts_eq: "addToasts calls ts = ts @ map toast_of calls"
proof (induction calls arbitrary: ts)
  case Nil
  show ?case by (simp add: addToasts_def)
next
  case (Cons c calls)
  have "addToasts (c # calls) ts = addToasts calls (addToast (fst c) (fst (snd c)) (snd (snd c)) ts)"
    by (simp add: addToasts_def split_beta)
  also have "\<dots> = (ts @ [toast_of c]) @ map toast_of calls"
    using Cons.IH by (simp add: addToast_def toast_of_def)
  finally show ?case by simp
qed

lemma id_toast_of: "map id_toast (map toast_of calls) = map fst calls"
  by (induction calls) (simp_all add: toast_of_def)

text \<open>
  C5, as the code has it. Every call of \<open>addToast\<close> puts its entry at the end of the queue,
  so the queue after a run of calls is the old queue followed by the new entries in the
  order of the calls. The id of an entry is the clock reading of its call: the ids of the
  queue are pairwise distinct exactly when the old ids and the clock readings of the
  calls are; two calls in one clock tick get the same id.
\<close>

theorem addToast_order_and_ids:
  "addToasts calls ts = ts @ map toast_of calls
   \<and> length (addToast now msg kind ts) = Suc (length ts)
   \<and> last (addToast now msg kind ts) = \<lparr>id_toast = now, message = msg, type_toast = kind\<rparr>
   \<and> butlast (addToast now msg kind ts) = ts
   \<and> distinct (map id_toast (addToasts calls ts))
       = distinct (map id_toast ts @ map fst calls)"
proof -
  have "distinct (map id_toast (addToasts calls ts)) = distinct (map id_toast ts @ map fst calls)"
    by (simp only: addToasts_eq map_append id_toast_of)
  then show ?thesis
    by (simp add: addToasts_eq addToast_def)
qed

text \<open>
  C5 as stated fails: two toasts added in the same millisecond carry the same id.
\<close>

theorem addToast_same_tick_counterexample:
  "\<not> distinct (map id_toast
        (addToast 1000 (lit ''Copied to clipboard'') Success (addToast 1000 (lit ''Prompt deleted'') Success [])))"
  by (simp add: addToast_def)

text \<open>
  C6. \<open>removeToast\<close> is idempotent: removing an id twice leaves the queue that removing
  it once leaves, and removing an id that no entry carries leaves the queue as it is.
\<close>

theorem removeToast_idempotent:
  "removeToast i (removeToast i ts) = removeToast i ts
   \<and> (i \<notin> id_toast ` set ts \<longrightarrow> removeToast i ts = ts)"
proof
  show "removeToast i (removeToast i ts) = removeToast i ts"
    by (simp add: removeToast_def)
  show "i \<notin> id_toast ` set ts \<longrightarrow> removeToast i ts = ts"
  proof
    assume "i \<notin> id_toast ` set ts"
    then have "\<forall>t\<in>set ts. id_toast t \<noteq> i" by auto
    then show "removeToast i ts = ts"
      unfolding removeToast_def by (simp add: filter_id_conv)
  qed
qed

theorem removeToast_idempotent_witness:
  "1002 \<notin> id_toast ` set sample_toasts
   \<and> removeToast 1002 sample_toasts = sample_toasts
   \<and> removeToast 1000 (removeToast 1000 sample_toasts) = removeToast 1000 sample_toasts
   \<and> removeToast 1000 sample_toasts
       = [\<lparr>id_toast = 1001, message = lit ''Login to like posts'', type_toast = Error\<rparr>]"
proof -
  have h: "1002 \<notin> id_toast ` set sample_toasts"
    by (simp add: sample_toasts_def)
  have a: "removeToast 1002 sample_toasts = sample_toasts"
    using removeToast_idempotent [of 1002 sample_toasts] h by blast
  have b: "removeToast 1000 (removeToast 1000 sample_toasts) = removeToast 1000 sample_toasts"
    using removeToast_idempotent [of 1000 sample_toasts] by blast
  have c: "removeToast 1000 sample_toasts
       = [\<lparr>id_toast = 1001, message = lit ''Login to like posts'', type_toast = Error\<rparr>]"
    by (simp add: removeToast_def sample_toasts_def)
  from h a b c show ?thesis by blast
qed

section \<open>Deleting\<close>

text \<open>
  C9. A confirmed \<open>handleDelete\<close> keeps exactly the prompts whose id is not the given one,
  in their order; when no prompt has the id the store is as before, and a second delete
  of the same id changes nothing more. A declined dialog leaves the store alone. The
  library variant makes the same removal, which stays unless the request fails and the
  reload that follows brings a list.
\<close>

theorem handleDelete_removes:
  "prompts (handleDelete ok i tnow s)
     = (if ok then filter (\<lambda>p. id_prompt p \<noteq> i) (prompts s) else prompts s)
   \<and> subseq (prompts (handleDelete ok i tnow s)) (prompts s)
   \<and> (i \<notin> id_prompt ` set (prompts s) \<longrightarrow> prompts (handleDelete ok i tnow s) = prompts s)
   \<and> prompts (handleDelete ok' i tnow' (handleDelete True i tnow s))
       = prompts (handleDelete True i tnow s)
   \<and> (deleted \<or> reload = FetchFailed \<longrightarrow>
        lib_prompts (lib_handleDelete g True i deleted tnow reload tnow2 t)
          = filter (\<lambda>p. id_prompt p \<noteq> i) (lib_prompts t))
   \<and> lib_handleDelete g False i deleted tnow reload tnow2 t = t"
proof -
  have keep: "i \<notin> id_prompt ` set (prompts s) \<Longrightarrow> filter (\<lambda>p. id_prompt p \<noteq> i) (prompts s) = prompts s"
    by (rule filter_True) auto
  have a: "prompts (handleDelete ok i tnow s)
     = (if ok then filter (\<lambda>p. id_prompt p \<noteq> i) (prompts s) else prompts s)"
    by (simp add: handleDelete_def)
  have b: "subseq (prompts (handleDelete ok i tnow s)) (prompts s)"
    by (simp add: a)
  have c: "i \<notin> id_prompt ` set (prompts s) \<longrightarrow> prompts (handleDelete ok i tnow s) = prompts s"
    using keep by (simp add: a)
  have d: "prompts (handleDelete ok' i tnow' (handleDelete True i tnow s))
       = prompts (handleDelete True i tnow s)"
    by (simp add: handleDelete_def)
  have e: "deleted \<or> reload = FetchFailed \<longrightarrow>
        lib_prompts (lib_handleDelete g True i deleted tnow reload tnow2 t)
          = filter (\<lambda>p. id_prompt p \<noteq> i) (lib_prompts t)"
    by (auto simp add: lib_handleDelete_def lib_loadPrompts_def Let_def)
  have f: "lib_handleDelete g False i deleted tnow reload tnow2 t = t"
    by (simp add: lib_handleDelete_def)
  from a b c d e f show ?thesis by blast
qed

theorem handleDelete_removes_witness:
  "(lit ''9'') \<notin> id_prompt ` set (prompts signed_in)
   \<and> prompts (handleDelete True (lit ''9'') 2000 signed_in) = prompts signed_in
   \<and> map id_prompt (prompts (handleDelete True (lit ''2'') 2000 signed_in)) = [(lit ''1'')]
   \<and> map id_prompt (prompts (handleDelete False (lit ''2'') 2000 signed_in)) = [(lit ''1''), (lit ''2'')]"
proof -
  have h: "(lit ''9'') \<notin> id_prompt ` set (prompts signed_in)"
    by (simp add: signed_in_def mock_data_def)
  have a: "prompts (handleDelete True (lit ''9'') 2000 signed_in) = prompts signed_in"
    using handleDelete_removes [of True "(lit ''9'')" 2000 signed_in] h by blast
  have b: "map id_prompt (prompts (handleDelete True (lit ''2'') 2000 signed_in)) = [(lit ''1'')]"
    by (simp add: handleDelete_def signed_in_def mock_data_def)
  have c: "map id_prompt (prompts (handleDelete False (lit ''2'') 2000 signed_in)) = [(lit ''1''), (lit ''2'')]"
    by (simp add: handleDelete_def signed_in_def mock_data_def)
  from h a b c show ?thesis by blast
qed

text \<open>
  C1, as the code has it. \<open>handleDelete\<close> does not look at the user: confirmed, it
  removes the prompts with the id and appends the success toast, whoever is signed in;
  declined, it changes nothing. The author rule lives in the view, which shows the delete
  button of a card only to a signed-in user whose id is the card's \<open>author_id\<close>.
\<close>

theorem handleDelete_ignores_user:
  "prompts (handleDelete ok i tnow (s\<lparr>user := usr\<rparr>)) = prompts (handleDelete ok i tnow s)
   \<and> toasts (handleDelete ok i tnow (s\<lparr>user := usr\<rparr>)) = toasts (handleDelete ok i tnow s)
   \<and> toasts (handleDelete True i tnow s)
       = toasts s @ [\<lparr>id_toast = tnow, message = lit ''Prompt deleted'', type_toast = Success\<rparr>]
   \<and> set (prompts (handleDelete True i tnow s)) = {p \<in> set (prompts s). id_prompt p \<noteq> i}
   \<and> handleDelete False i tnow s = s
   \<and> delete_shown (user s) p = (\<exists>u. user s = Some u \<and> author_id p = id_user u)"
  by (auto simp add: handleDelete_def addToast_def delete_shown_def split: option.splits)

theorem handleDelete_ignores_user_witness:
  "\<not> delete_shown (user signed_in) (prompts signed_in ! 0)
   \<and> delete_shown (user signed_in) (prompts signed_in ! 1)
   \<and> toasts (handleDelete True (lit ''1'') 2000 signed_in)
       = [\<lparr>id_toast = 2000, message = lit ''Prompt deleted'', type_toast = Success\<rparr>]"
proof -
  have a: "\<not> delete_shown (user signed_in) (prompts signed_in ! 0)"
    by (simp add: delete_shown_def signed_in_def mock_data_def alice_def)
  have b: "delete_shown (user signed_in) (prompts signed_in ! 1)"
    by (simp add: delete_shown_def signed_in_def mock_data_def alice_def js_or_def)
  have c: "toasts signed_in = []"
    by (simp add: signed_in_def initial_def)
  have d: "toasts (handleDelete True (lit ''1'') 2000 signed_in)
       = [\<lparr>id_toast = 2000, message = lit ''Prompt deleted'', type_toast = Success\<rparr>]"
    using handleDelete_ignores_user [where ok = True and i = "(lit ''1'')" and tnow = 2000 and s = signed_in] c
    by simp
  from a b d show ?thesis by blast
qed

text \<open>
  C1 as stated fails: signed in as a user who is not the author of prompt 1, a confirmed
  \<open>handleDelete\<close> of prompt 1 removes it and queues a success toast, no error toast.
\<close>

theorem handleDelete_non_author_counterexample:
  "user signed_in = Some alice
   \<and> author_id (prompts signed_in ! 0) \<noteq> id_user alice
   \<and> id_prompt (prompts signed_in ! 0) = lit ''1''
   \<and> prompts (handleDelete True (lit ''1'') 2000 signed_in) \<noteq> prompts signed_in
   \<and> map type_toast (toasts (handleDelete True (lit ''1'') 2000 signed_in)) = [Success]"
  by (simp add: handleDelete_def addToast_def signed_in_def initial_def mock_data_def alice_def)

section \<open>The sign-in gate\<close>

text \<open>
  C4. With nobody signed in, \<open>handleSubmit\<close>, \<open>handleLike\<close> and \<open>handleCommentSubmit\<close>
  leave the prompts (and everything but the queue) as they are and append exactly one
  toast of kind error to the queue.
\<close>

theorem unauthenticated_rejected:
  assumes "user s = None"
  shows "handleSubmit now stamp tnow s
           = s\<lparr>toasts := toasts s @ [\<lparr>id_toast = tnow, message = lit ''Please login to share prompts'',
                                      type_toast = Error\<rparr>]\<rparr>
         \<and> handleLike i tnow s
           = s\<lparr>toasts := toasts s @ [\<lparr>id_toast = tnow, message = lit ''Login to like posts'',
                                      type_toast = Error\<rparr>]\<rparr>
         \<and> handleCommentSubmit i now stamp tnow s
           = s\<lparr>toasts := toasts s @ [\<lparr>id_toast = tnow, message = lit ''Login to comment'',
                                      type_toast = Error\<rparr>]\<rparr>
         \<and> prompts (handleSubmit now stamp tnow s) = prompts s
         \<and> prompts (handleLike i tnow s) = prompts s
         \<and> prompts (handleCommentSubmit i now stamp tnow s) = prompts s"
  using assms by (simp add: handleSubmit_def handleLike_def handleCommentSubmit_def addToast_def)

theorem unauthenticated_rejected_witness:
  "user initial = None
   \<and> prompts (handleSubmit 1 (lit ''t'') 2 initial) = prompts initial
   \<and> toasts (handleSubmit 1 (lit ''t'') 2 initial)
       = [\<lparr>id_toast = 2, message = lit ''Please login to share prompts'', type_toast = Error\<rparr>]
   \<and> toasts (handleLike (lit ''1'') 2 initial)
       = [\<lparr>id_toast = 2, message = lit ''Login to like posts'', type_toast = Error\<rparr>]
   \<and> toasts (handleCommentSubmit (lit ''1'') 1 (lit ''t'') 2 initial)
       = [\<lparr>id_toast = 2, message = lit ''Login to comment'', type_toast = Error\<rparr>]"
proof -
  have h: "user initial = None" by (simp add: initial_def)
  have t: "toasts initial = []" by (simp add: initial_def)
  note r = unauthenticated_rejected [OF h, of 1 "(lit ''t'')" 2 "(lit ''1'')"]
  have a: "prompts (handleSubmit 1 (lit ''t'') 2 initial) = prompts initial"
    using r by blast
  have b: "toasts (handleSubmit 1 (lit ''t'') 2 initial)
       = [\<lparr>id_toast = 2, message = lit ''Please login to share prompts'', type_toast = Error\<rparr>]"
    using r t by simp
  have c: "toasts (handleLike (lit ''1'') 2 initial)
       = [\<lparr>id_toast = 2, message = lit ''Login to like posts'', type_toast = Error\<rparr>]"
    using r t by simp
  have d: "toasts (handleCommentSubmit (lit ''1'') 1 (lit ''t'') 2 initial)
       = [\<lparr>id_toast = 2, message = lit ''Login to comment'', type_toast = Error\<rparr>]"
    using r t by simp
  from h a b c d show ?thesis by blast
qed

section \<open>Likes\<close>

lemma net_likes_closed: "net_likes b n = (if odd n then (if b then - 1 else 1) else 0)"
  by (induction n arbitrary: b) auto

lemma like_one_exact:
  assumes "exact_range p"
  shows "like_one p = p\<lparr>liked_by_user := \<not> liked_by_user p,
                         likes := likes p + (if liked_by_user p then - 1 else 1)\<rparr>"
    and "exact_range (like_one p)"
proof -
  have e: "like_one p = p\<lparr>liked_by_user := \<not> liked_by_user p,
                         likes := likes p + (if liked_by_user p then - 1 else 1)\<rparr>"
  proof (cases "liked_by_user p")
    case True
    then have "\<bar>likes p - 1\<bar> \<le> 2 ^ 53"
      using assms by (simp add: exact_range_def abs_le_iff)
    then have "js_sub (likes p) 1 = likes p - 1"
      unfolding js_sub_def by (rule round_double_exact)
    then show ?thesis using True by (simp add: like_one_def)
  next
    case False
    then have "\<bar>likes p + 1\<bar> \<le> 2 ^ 53"
      using assms by (simp add: exact_range_def abs_le_iff)
    then have "js_add (likes p) 1 = likes p + 1"
      unfolding js_add_def by (rule round_double_exact)
    then show ?thesis using False by (simp add: like_one_def)
  qed
  show "like_one p = p\<lparr>liked_by_user := \<not> liked_by_user p,
                         likes := likes p + (if liked_by_user p then - 1 else 1)\<rparr>"
    by (rule e)
  show "exact_range (like_one p)"
    using assms unfolding e by (auto simp: exact_range_def split: if_splits)
qed

lemma toggleLikes_nth:
  assumes "user s = Some u" and "k < length (prompts s)" and "id_prompt (prompts s ! k) = i"
    and "exact_range (prompts s ! k)"
  shows "length (prompts (toggleLikes i ticks s)) = length (prompts s)
         \<and> prompts (toggleLikes i ticks s) ! k
             = (prompts s ! k)
                 \<lparr>liked_by_user := (liked_by_user (prompts s ! k) \<noteq> odd (length ticks)),
                  likes := likes (prompts s ! k)
                           + net_likes (liked_by_user (prompts s ! k)) (length ticks)\<rparr>"
  using assms
proof (induction ticks arbitrary: s)
  case Nil
  show ?case by (simp add: toggleLikes_def)
next
  case (Cons t ticks)
  let ?s1 = "handleLike i t s"
  let ?p = "prompts s ! k"
  have u1: "user ?s1 = Some u"
    using Cons.prems(1) by (simp add: handleLike_def)
  have l1: "length (prompts ?s1) = length (prompts s)"
    using Cons.prems(1) by (simp add: handleLike_def)
  have p1: "prompts ?s1 ! k = like_one ?p"
    using Cons.prems(1,2,3) by (simp add: handleLike_def)
  note e = like_one_exact [OF Cons.prems(4)]
  have k1: "k < length (prompts ?s1)"
    using Cons.prems(2) l1 by simp
  have i1: "id_prompt (prompts ?s1 ! k) = i"
    using Cons.prems(3) by (simp add: p1 e(1))
  have x1: "exact_range (prompts ?s1 ! k)"
    using e(2) by (simp add: p1)
  have step: "toggleLikes i (t # ticks) s = toggleLikes i ticks ?s1"
    by (simp add: toggleLikes_def)
  note IH = Cons.IH [OF u1 k1 i1 x1]
  have a: "length (prompts (toggleLikes i (t # ticks) s)) = length (prompts s)"
    using IH l1 by (simp add: step)
  have b: "prompts (toggleLikes i (t # ticks) s) ! k
             = ?p\<lparr>liked_by_user := (liked_by_user ?p \<noteq> odd (length (t # ticks))),
                  likes := likes ?p + net_likes (liked_by_user ?p) (length (t # ticks))\<rparr>"
    using IH by (simp add: step p1 e(1))
  from a b show ?case by blast
qed

text \<open>
  C2, as the code has it. Signed in, after any run of \<open>handleLike\<close> calls on the id of a
  prompt of the store whose likes are below \<open>2^53\<close> in magnitude, the prompt's likes are
  its likes before plus the net number of like transitions of the run, and its flag is
  the flag before flipped when the number of calls is odd. From 5 likes and a clear
  flag, one call gives 6 likes and a set flag, a second gives 5 likes and a clear flag
  again.
\<close>

theorem toggleLike_sequence:
  assumes "user s = Some u" and "k < length (prompts s)" and "id_prompt (prompts s ! k) = i"
    and "\<bar>likes (prompts s ! k)\<bar> < 2 ^ 53"
  shows "length (prompts (toggleLikes i ticks s)) = length (prompts s)
         \<and> likes (prompts (toggleLikes i ticks s) ! k)
             = likes (prompts s ! k) + net_likes (liked_by_user (prompts s ! k)) (length ticks)
         \<and> liked_by_user (prompts (toggleLikes i ticks s) ! k)
             = (liked_by_user (prompts s ! k) \<noteq> odd (length ticks))
         \<and> net_likes b n = (if odd n then (if b then - 1 else 1) else 0)
         \<and> (likes (prompts s ! k) = 5 \<and> \<not> liked_by_user (prompts s ! k) \<longrightarrow>
              likes (prompts (toggleLikes i [t1] s) ! k) = 6
              \<and> liked_by_user (prompts (toggleLikes i [t1] s) ! k)
              \<and> likes (prompts (toggleLikes i [t1, t2] s) ! k) = 5
              \<and> \<not> liked_by_user (prompts (toggleLikes i [t1, t2] s) ! k))"
proof -
  have x: "exact_range (prompts s ! k)"
    using assms(4) by (simp add: exact_range_def abs_less_iff)
  note eq = toggleLikes_nth [OF assms(1,2,3) x]
  have a: "length (prompts (toggleLikes i ticks s)) = length (prompts s)"
    using eq [of ticks] by blast
  have b: "likes (prompts (toggleLikes i ticks s) ! k)
             = likes (prompts s ! k) + net_likes (liked_by_user (prompts s ! k)) (length ticks)"
    using eq [of ticks] by simp
  have c: "liked_by_user (prompts (toggleLikes i ticks s) ! k)
             = (liked_by_user (prompts s ! k) \<noteq> odd (length ticks))"
    using eq [of ticks] by simp
  have d: "likes (prompts s ! k) = 5 \<and> \<not> liked_by_user (prompts s ! k) \<longrightarrow>
              likes (prompts (toggleLikes i [t1] s) ! k) = 6
              \<and> liked_by_user (prompts (toggleLikes i [t1] s) ! k)
              \<and> likes (prompts (toggleLikes i [t1, t2] s) ! k) = 5
              \<and> \<not> liked_by_user (prompts (toggleLikes i [t1, t2] s) ! k)"
    using eq [of "[t1]"] eq [of "[t1, t2]"] by (simp add: net_likes_closed)
  from a b c d net_likes_closed [of b n] show ?thesis by blast
qed

theorem toggleLike_sequence_witness:
  "user five_likes = Some alice
   \<and> 0 < length (prompts five_likes)
   \<and> id_prompt (prompts five_likes ! 0) = lit ''1''
   \<and> likes (prompts five_likes ! 0) = 5
   \<and> \<not> liked_by_user (prompts five_likes ! 0)
   \<and> likes (prompts (toggleLikes (lit ''1'') [10] five_likes) ! 0) = 6
   \<and> liked_by_user (prompts (toggleLikes (lit ''1'') [10] five_likes) ! 0)
   \<and> likes (prompts (toggleLikes (lit ''1'') [10, 20] five_likes) ! 0) = 5
   \<and> \<not> liked_by_user (prompts (toggleLikes (lit ''1'') [10, 20] five_likes) ! 0)
   \<and> likes (prompts (toggleLikes (lit ''1'') [10, 20, 30] five_likes) ! 0) = 6"
proof -
  have h1: "user five_likes = Some alice"
    by (simp add: five_likes_def signed_in_def)
  have h2: "0 < length (prompts five_likes)"
    by (simp add: five_likes_def)
  have h3: "id_prompt (prompts five_likes ! 0) = lit ''1''"
    by (simp add: five_likes_def)
  have h4: "likes (prompts five_likes ! 0) = 5"
    by (simp add: five_likes_def)
  have h5: "\<not> liked_by_user (prompts five_likes ! 0)"
    by (simp add: five_likes_def)
  have h6: "\<bar>likes (prompts five_likes ! 0)\<bar> < 2 ^ 53"
    by (simp add: h4)
  note r = toggleLike_sequence [OF h1 h2 h3 h6]
  have a: "likes (prompts (toggleLikes (lit ''1'') [10] five_likes) ! 0) = 6
     \<and> liked_by_user (prompts (toggleLikes (lit ''1'') [10] five_likes) ! 0)
     \<and> likes (prompts (toggleLikes (lit ''1'') [10, 20] five_likes) ! 0) = 5
     \<and> \<not> liked_by_user (prompts (toggleLikes (lit ''1'') [10, 20] five_likes) ! 0)"
    using r [of "[]" True 0 10 20] h4 h5 by blast
  have b: "likes (prompts (toggleLikes (lit ''1'') [10, 20, 30] five_likes) ! 0) = 6"
    using r [of "[10, 20, 30]" False 3] h4 h5 by (simp add: net_likes_closed)
  from h1 h2 h3 h4 h5 a b show ?thesis by blast
qed

text \<open>
  C2 as stated fails: a prompt with \<open>2^53\<close> likes (a load copies the likes of a row as
  they come) keeps \<open>2^53\<close> likes when it is liked, the sum being rounded, and has
  \<open>2^53 - 1\<close> likes after the second call, not the likes it began with.
\<close>

theorem toggleLike_large_counterexample:
  "user big_likes = Some alice
   \<and> id_prompt (prompts big_likes ! 0) = lit ''1''
   \<and> likes (prompts big_likes ! 0) = 9007199254740992
   \<and> \<not> liked_by_user (prompts big_likes ! 0)
   \<and> likes (prompts (toggleLikes (lit ''1'') [10] big_likes) ! 0) = 9007199254740992
   \<and> liked_by_user (prompts (toggleLikes (lit ''1'') [10] big_likes) ! 0)
   \<and> likes (prompts (toggleLikes (lit ''1'') [10, 20] big_likes) ! 0) = 9007199254740991
   \<and> \<not> liked_by_user (prompts (toggleLikes (lit ''1'') [10, 20] big_likes) ! 0)"
  by (simp add: big_likes_def signed_in_def toggleLikes_def handleLike_def like_one_def
      js_add_def js_sub_def round_double_def width.simps)

lemma like_one_inv: "likes_inv p \<Longrightarrow> likes_inv (like_one p)"
proof (cases "liked_by_user p")
  case True
  assume "likes_inv p"
  then have "0 \<le> likes p - 1" using True by (simp add: likes_inv_def)
  then have "0 \<le> js_sub (likes p) 1"
    unfolding js_sub_def by (rule round_double_nonneg)
  then show ?thesis using True by (simp add: likes_inv_def like_one_def)
next
  case False
  assume "likes_inv p"
  then have "1 \<le> likes p + 1" using False by (simp add: likes_inv_def)
  then have "1 \<le> js_add (likes p) 1"
    unfolding js_add_def by (rule round_double_pos)
  then show ?thesis using False by (simp add: likes_inv_def like_one_def)
qed

lemma step_likes_inv:
  assumes "list_all likes_inv (prompts s)" and "no_negative_likes c"
  shows "list_all likes_inv (prompts (step g c s))"
proof (cases c)
  case (Load res stamp1 stamp2)
  show ?thesis
  proof (cases res)
    case FetchFailed
    then show ?thesis using Load
      by (simp add: loadPrompts_def mock_data_def likes_inv_def)
  next
    case (FetchJson data)
    then have "list_all (\<lambda>r. case raw_likes r of None \<Rightarrow> True | Some n \<Rightarrow> 0 \<le> n) data"
      using assms(2) Load by simp
    then have "list_all likes_inv (map social data)"
      by (auto simp: list_all_iff social_def likes_inv_def split: option.splits)
    then show ?thesis using Load FetchJson
      by (simp add: loadPrompts_def newest_first_def list_all_iff)
  qed
next
  case (Submit now stamp tnow)
  then show ?thesis using assms(1)
    by (auto simp: handleSubmit_def likes_inv_def Let_def split: option.splits)
next
  case (Delete ok i tnow)
  then show ?thesis using assms(1)
    by (auto simp: handleDelete_def list_all_iff)
next
  case (Like i tnow)
  then show ?thesis using assms(1)
    by (auto simp: handleLike_def list_all_iff like_one_inv split: option.splits)
next
  case (CommentSubmit i now stamp tnow)
  then show ?thesis using assms(1)
    by (auto simp: handleCommentSubmit_def likes_inv_def list_all_iff Let_def split: option.splits)
qed (use assms(1) in \<open>simp_all add: handleCopy_def handleLogout_def\<close>)

lemma run_likes_inv:
  "list_all no_negative_likes cs \<Longrightarrow> list_all likes_inv (prompts (run g cs))"
proof (induction cs rule: rev_induct)
  case Nil
  show ?case by (simp add: run_def initial_def)
next
  case (snoc c cs)
  then have "list_all likes_inv (prompts (run g cs))" and "no_negative_likes c" by simp_all
  then have "list_all likes_inv (prompts (step g c (run g cs)))" by (rule step_likes_inv)
  then show ?case by (simp add: run_def)
qed

text \<open>
  C3, as the code has it. A \<open>handleLike\<close> step that flips the flag of a prompt whose
  likes are below \<open>2^53\<close> in magnitude moves its likes by exactly one in the same step:
  up when the flag is set, down when it is cleared; a prompt whose flag stays is not
  touched. In every state the page reaches by its handlers and setters from the empty
  start, the likes of every prompt are non-negative, provided no load brought a row with
  negative likes.
\<close>

theorem like_step_and_nonnegative:
  "(k < length (prompts s) \<and> \<bar>likes (prompts s ! k)\<bar> < 2 ^ 53 \<longrightarrow>
      (liked_by_user (prompts (handleLike i tnow s) ! k) \<noteq> liked_by_user (prompts s ! k) \<longrightarrow>
         likes (prompts (handleLike i tnow s) ! k)
           = likes (prompts s ! k)
             + (if liked_by_user (prompts (handleLike i tnow s) ! k) then 1 else - 1)))
   \<and> (k < length (prompts s) \<longrightarrow>
      (liked_by_user (prompts (handleLike i tnow s) ! k) = liked_by_user (prompts s ! k) \<longrightarrow>
         prompts (handleLike i tnow s) ! k = prompts s ! k))
   \<and> (list_all no_negative_likes cs \<longrightarrow> list_all (\<lambda>p. 0 \<le> likes p) (prompts (run g cs)))"
proof -
  have a: "k < length (prompts s) \<and> \<bar>likes (prompts s ! k)\<bar> < 2 ^ 53 \<longrightarrow>
      (liked_by_user (prompts (handleLike i tnow s) ! k) \<noteq> liked_by_user (prompts s ! k) \<longrightarrow>
         likes (prompts (handleLike i tnow s) ! k)
           = likes (prompts s ! k)
             + (if liked_by_user (prompts (handleLike i tnow s) ! k) then 1 else - 1))"
  proof (intro impI, elim conjE)
    assume k: "k < length (prompts s)" and r: "\<bar>likes (prompts s ! k)\<bar> < 2 ^ 53"
      and f: "liked_by_user (prompts (handleLike i tnow s) ! k) \<noteq> liked_by_user (prompts s ! k)"
    have x: "exact_range (prompts s ! k)"
      using r by (simp add: exact_range_def abs_less_iff)
    have "prompts (handleLike i tnow s) ! k = like_one (prompts s ! k)"
      using k f by (cases "user s"; cases "id_prompt (prompts s ! k) = i")
        (simp_all add: handleLike_def)
    then show "likes (prompts (handleLike i tnow s) ! k)
           = likes (prompts s ! k)
             + (if liked_by_user (prompts (handleLike i tnow s) ! k) then 1 else - 1)"
      by (simp add: like_one_exact(1) [OF x])
  qed
  have b: "k < length (prompts s) \<longrightarrow>
      (liked_by_user (prompts (handleLike i tnow s) ! k) = liked_by_user (prompts s ! k) \<longrightarrow>
         prompts (handleLike i tnow s) ! k = prompts s ! k)"
    by (cases "user s") (auto simp: handleLike_def like_one_def)
  have c: "list_all no_negative_likes cs \<longrightarrow> list_all (\<lambda>p. 0 \<le> likes p) (prompts (run g cs))"
  proof
    assume "list_all no_negative_likes cs"
    then have "list_all likes_inv (prompts (run g cs))" by (rule run_likes_inv)
    then show "list_all (\<lambda>p. 0 \<le> likes p) (prompts (run g cs))"
      by (auto simp: list_all_iff likes_inv_def split: if_splits)
  qed
  from a b c show ?thesis by blast
qed

theorem like_step_and_nonnegative_witness:
  "list_all no_negative_likes sample_run
   \<and> list_all (\<lambda>p. 0 \<le> likes p) (prompts (run sample_getTime sample_run))
   \<and> map likes (prompts (run sample_getTime sample_run)) = [46, 12]
   \<and> 1 < length (prompts signed_in)
   \<and> likes (prompts signed_in ! 1) = 12
   \<and> likes (prompts (handleLike (lit ''2'') 5 signed_in) ! 1) = 11"
proof -
  have h: "list_all no_negative_likes sample_run"
    by (simp add: sample_run_def)
  have a: "list_all (\<lambda>p. 0 \<le> likes p) (prompts (run sample_getTime sample_run))"
    using like_step_and_nonnegative [of 0 initial "[]" 0 sample_run sample_getTime] h by blast
  have b: "map likes (prompts (run sample_getTime sample_run)) = [46, 12]"
    by (simp add: run_def sample_run_def initial_def loadPrompts_def mock_data_def
        handleLike_def like_one_def js_add_def js_sub_def round_double_def)
  have c: "1 < length (prompts signed_in)"
    by (simp add: signed_in_def mock_data_def)
  have d: "likes (prompts signed_in ! 1) = 12"
    by (simp add: signed_in_def mock_data_def)
  have d': "\<bar>likes (prompts signed_in ! 1)\<bar> < 2 ^ 53"
    unfolding d by simp
  have e: "liked_by_user (prompts (handleLike (lit ''2'') 5 signed_in) ! 1) \<noteq> liked_by_user (prompts signed_in ! 1)"
    by (simp add: signed_in_def mock_data_def handleLike_def like_one_def)
  have f: "\<not> liked_by_user (prompts (handleLike (lit ''2'') 5 signed_in) ! 1)"
    by (simp add: signed_in_def mock_data_def handleLike_def like_one_def)
  have g: "likes (prompts (handleLike (lit ''2'') 5 signed_in) ! 1) = 11"
    using like_step_and_nonnegative [of 1 signed_in "lit ''2''" 5 "[]" sample_getTime] c d d' e f
    by simp
  from h a b c d g show ?thesis by blast
qed

text \<open>
  C3 as stated fails twice. \<open>loadPrompts\<close> takes the likes of a row as they come
  (\<open>p.likes || 0\<close>), so a row with likes -1 puts a prompt with -1 likes in the store; and
  a prompt with \<open>2^53\<close> likes has its flag set by \<open>handleLike\<close> while its likes stay,
  the sum being rounded.
\<close>

theorem negative_likes_counterexample:
  "\<not> 0 \<le> likes (prompts (run sample_getTime [Load (FetchJson [negative_row]) (lit ''t1'') (lit ''t2'')]) ! 0)
   \<and> liked_by_user (prompts (handleLike (lit ''1'') 10 big_likes) ! 0)
       \<noteq> liked_by_user (prompts big_likes ! 0)
   \<and> likes (prompts (handleLike (lit ''1'') 10 big_likes) ! 0) = likes (prompts big_likes ! 0)"
  by (simp add: run_def loadPrompts_def newest_first_def social_def negative_row_def
      big_likes_def signed_in_def handleLike_def like_one_def js_add_def round_double_def
      width.simps)

section \<open>What a like and a comment leave alone\<close>

text \<open>
  C10. \<open>handleLike\<close> keeps the length of the store and, at every position, the id,
  author, title, content, category, creation time and comments; a prompt with another id
  is untouched by it and by \<open>handleCommentSubmit\<close>. \<open>handleCommentSubmit\<close> changes
  nothing but the comments of a prompt, and for a signed-in user and a text that is not
  blank it puts the one new comment behind the comments the target had.
\<close>

theorem like_and_comment_frame:
  "length (prompts (handleLike i tnow s)) = length (prompts s)
   \<and> length (prompts (handleCommentSubmit i now stamp tnow s)) = length (prompts s)
   \<and> (k < length (prompts s) \<longrightarrow>
        id_prompt (prompts (handleLike i tnow s) ! k) = id_prompt (prompts s ! k)
        \<and> author_id (prompts (handleLike i tnow s) ! k) = author_id (prompts s ! k)
        \<and> author_name (prompts (handleLike i tnow s) ! k) = author_name (prompts s ! k)
        \<and> title (prompts (handleLike i tnow s) ! k) = title (prompts s ! k)
        \<and> content (prompts (handleLike i tnow s) ! k) = content (prompts s ! k)
        \<and> category (prompts (handleLike i tnow s) ! k) = category (prompts s ! k)
        \<and> created_at (prompts (handleLike i tnow s) ! k) = created_at (prompts s ! k)
        \<and> comments (prompts (handleLike i tnow s) ! k) = comments (prompts s ! k)
        \<and> (id_prompt (prompts s ! k) \<noteq> i \<longrightarrow>
             prompts (handleLike i tnow s) ! k = prompts s ! k
             \<and> prompts (handleCommentSubmit i now stamp tnow s) ! k = prompts s ! k)
        \<and> (prompts (handleCommentSubmit i now stamp tnow s) ! k)\<lparr>comments := comments (prompts s ! k)\<rparr>
             = prompts s ! k
        \<and> (id_prompt (prompts s ! k) = i \<and> user s = Some u \<and> commentInputs s i = Some input
             \<and> \<not> blank input \<longrightarrow>
             comments (prompts (handleCommentSubmit i now stamp tnow s) ! k)
               = comments (prompts s ! k)
                 @ [\<lparr>id_comment = toString now, user_name = comment_name u, text_comment = input,
                     created_at_comment = stamp\<rparr>]))"
proof -
  have a: "length (prompts (handleLike i tnow s)) = length (prompts s)"
    by (simp add: handleLike_def split: option.splits)
  have b: "length (prompts (handleCommentSubmit i now stamp tnow s)) = length (prompts s)"
    by (simp add: handleCommentSubmit_def Let_def split: option.splits)
  have c: "k < length (prompts s) \<Longrightarrow>
        id_prompt (prompts (handleLike i tnow s) ! k) = id_prompt (prompts s ! k)
        \<and> author_id (prompts (handleLike i tnow s) ! k) = author_id (prompts s ! k)
        \<and> author_name (prompts (handleLike i tnow s) ! k) = author_name (prompts s ! k)
        \<and> title (prompts (handleLike i tnow s) ! k) = title (prompts s ! k)
        \<and> content (prompts (handleLike i tnow s) ! k) = content (prompts s ! k)
        \<and> category (prompts (handleLike i tnow s) ! k) = category (prompts s ! k)
        \<and> created_at (prompts (handleLike i tnow s) ! k) = created_at (prompts s ! k)
        \<and> comments (prompts (handleLike i tnow s) ! k) = comments (prompts s ! k)"
    by (simp add: handleLike_def like_one_def Let_def split: option.splits)
  have d: "k < length (prompts s) \<Longrightarrow> id_prompt (prompts s ! k) \<noteq> i \<Longrightarrow>
             prompts (handleLike i tnow s) ! k = prompts s ! k
             \<and> prompts (handleCommentSubmit i now stamp tnow s) ! k = prompts s ! k"
    by (simp add: handleLike_def handleCommentSubmit_def Let_def split: option.splits)
  have e: "k < length (prompts s) \<Longrightarrow>
      (prompts (handleCommentSubmit i now stamp tnow s) ! k)\<lparr>comments := comments (prompts s ! k)\<rparr>
             = prompts s ! k"
    by (simp add: handleCommentSubmit_def Let_def split: option.splits)
  have f: "k < length (prompts s) \<Longrightarrow> id_prompt (prompts s ! k) = i \<and> user s = Some u
             \<and> commentInputs s i = Some input \<and> \<not> blank input \<Longrightarrow>
             comments (prompts (handleCommentSubmit i now stamp tnow s) ! k)
               = comments (prompts s ! k)
                 @ [\<lparr>id_comment = toString now, user_name = comment_name u, text_comment = input,
                     created_at_comment = stamp\<rparr>]"
    by (simp add: handleCommentSubmit_def Let_def)
  from a b c d e f show ?thesis by blast
qed

theorem like_and_comment_frame_witness:
  "0 < length (prompts (step sample_getTime (SetCommentInput (lit ''1'') (lit ''Nice!'')) signed_in))
   \<and> \<not> blank (lit ''Nice!'')
   \<and> comments (prompts (handleCommentSubmit (lit ''1'') 7 (lit ''t3'') 8
         (step sample_getTime (SetCommentInput (lit ''1'') (lit ''Nice!'')) signed_in)) ! 0)
       = [\<lparr>id_comment = lit ''7'', user_name = lit ''Alice'', text_comment = lit ''Nice!'',
           created_at_comment = lit ''t3''\<rparr>]
   \<and> title (prompts (handleLike (lit ''1'') 8 signed_in) ! 0) = lit ''Midjourney Photorealism''"
proof -
  let ?s = "step sample_getTime (SetCommentInput (lit ''1'') (lit ''Nice!'')) signed_in"
  have p: "prompts ?s = prompts signed_in" by simp
  have h1: "0 < length (prompts ?s)"
    by (simp add: signed_in_def mock_data_def)
  have h2: "\<not> blank (lit ''Nice!'')"
    by (simp add: blank_def trim_def is_whitespace_def lit_def unat_unit_of)
  have h3: "id_prompt (prompts ?s ! 0) = lit ''1'' \<and> user ?s = Some alice
      \<and> commentInputs ?s (lit ''1'') = Some (lit ''Nice!'') \<and> \<not> blank (lit ''Nice!'')"
    using h2 by (simp add: signed_in_def mock_data_def)
  have c0: "comments (prompts ?s ! 0) = []"
    by (simp add: signed_in_def mock_data_def)
  have n: "comment_name alice = lit ''Alice''"
    by (simp add: comment_name_def alice_def js_or_def)
  have d: "toString 7 = lit ''7''"
    by code_simp
  note r = like_and_comment_frame [where s = "?s" and k = 0 and i = "(lit ''1'')" and u = alice
      and input = "(lit ''Nice!'')" and now = 7 and stamp = "(lit ''t3'')" and tnow = 8]
  have a: "comments (prompts (handleCommentSubmit (lit ''1'') 7 (lit ''t3'') 8 ?s) ! 0)
       = [\<lparr>id_comment = lit ''7'', user_name = lit ''Alice'', text_comment = lit ''Nice!'',
           created_at_comment = lit ''t3''\<rparr>]"
    using r h1 h3 c0 n d by simp
  have h4: "0 < length (prompts signed_in)"
    by (simp add: signed_in_def mock_data_def)
  have t: "title (prompts signed_in ! 0) = lit ''Midjourney Photorealism''"
    by (simp add: signed_in_def mock_data_def)
  have b: "title (prompts (handleLike (lit ''1'') 8 signed_in) ! 0) = lit ''Midjourney Photorealism''"
    using like_and_comment_frame [where s = signed_in and k = 0 and i = "(lit ''1'')" and tnow = 8] h4 t
    by simp
  from h1 h2 a b show ?thesis by blast
qed

section \<open>Search and categories\<close>











section \<open>Blank input\<close>

lemma blank_iff: "blank str = list_all is_whitespace str"
proof -
  have 1: "(dropWhile is_whitespace (rev (dropWhile is_whitespace str)) = [])
        = (dropWhile is_whitespace str = [])"
  proof (cases "dropWhile is_whitespace str")
    case Nil
    show ?thesis unfolding Nil by simp
  next
    case (Cons x xs)
    then have "\<not> is_whitespace x"
      using hd_dropWhile [of is_whitespace str] by auto
    then show ?thesis unfolding Cons
      by (auto simp: dropWhile_eq_Nil_conv)
  qed
  have "blank str = (dropWhile is_whitespace (rev (dropWhile is_whitespace str)) = [])"
    by (simp add: blank_def trim_def)
  also have "\<dots> = (dropWhile is_whitespace str = [])"
    by (rule 1)
  also have "\<dots> = list_all is_whitespace str"
    by (simp add: dropWhile_eq_Nil_conv list_all_iff)
  finally show ?thesis .
qed

text \<open>
  C8, as the code has it. A text is blank when it is empty or white space only. With a
  blank title or content \<open>handleSubmit\<close> leaves the store as it is, and for a signed-in
  user the whole state, the queue included: nothing is queued. With no comment text or a
  blank one \<open>handleCommentSubmit\<close> does the same, so the comments of the target stay as
  they are. Only the library variant queues an error toast for a blank title or
  content, and changes nothing else.
\<close>

theorem blank_rejected:
  "(blank (title_form (form s)) \<or> blank (content_form (form s)) \<longrightarrow>
      prompts (handleSubmit now stamp tnow s) = prompts s
      \<and> (user s = Some u \<longrightarrow> handleSubmit now stamp tnow s = s))
   \<and> (commentInputs s i = None \<or> (commentInputs s i = Some input \<and> blank input) \<longrightarrow>
      prompts (handleCommentSubmit i now stamp tnow s) = prompts s
      \<and> (user s = Some u \<longrightarrow> handleCommentSubmit i now stamp tnow s = s))
   \<and> (blank (title_form (lib_form t)) \<or> blank (content_form (lib_form t)) \<longrightarrow>
      lib_handleSubmit g tnow posted reload tnow2 t
        = t\<lparr>lib_toasts := lib_toasts t @ [\<lparr>id_toast = tnow,
              message = lit ''Title and content are required'', type_toast = Error\<rparr>]\<rparr>)
   \<and> blank input = list_all is_whitespace input"
proof -
  have a: "blank (title_form (form s)) \<or> blank (content_form (form s)) \<longrightarrow>
      prompts (handleSubmit now stamp tnow s) = prompts s
      \<and> (user s = Some u \<longrightarrow> handleSubmit now stamp tnow s = s)"
    by (cases "user s") (auto simp: handleSubmit_def)
  have b: "commentInputs s i = None \<or> (commentInputs s i = Some input \<and> blank input) \<longrightarrow>
      prompts (handleCommentSubmit i now stamp tnow s) = prompts s
      \<and> (user s = Some u \<longrightarrow> handleCommentSubmit i now stamp tnow s = s)"
    by (cases "user s") (auto simp: handleCommentSubmit_def)
  have c: "blank (title_form (lib_form t)) \<or> blank (content_form (lib_form t)) \<longrightarrow>
      lib_handleSubmit g tnow posted reload tnow2 t
        = t\<lparr>lib_toasts := lib_toasts t @ [\<lparr>id_toast = tnow,
              message = lit ''Title and content are required'', type_toast = Error\<rparr>]\<rparr>"
    by (auto simp: lib_handleSubmit_def addToast_def)
  from a b c blank_iff [of input] show ?thesis by blast
qed

theorem blank_rejected_witness:
  "blank (title_form (form blank_title))
   \<and> user blank_title = Some alice
   \<and> handleSubmit 7 (lit ''t3'') 8 blank_title = blank_title
   \<and> commentInputs blank_comment (lit ''1'') = Some (lit ''   '')
   \<and> blank (lit ''   '')
   \<and> handleCommentSubmit (lit ''1'') 7 (lit ''t3'') 8 blank_comment = blank_comment
   \<and> blank (title_form (lib_form lib_initial))
   \<and> lib_toasts (lib_handleSubmit sample_getTime 8 True FetchFailed 9 lib_initial)
       = [\<lparr>id_toast = 8, message = lit ''Title and content are required'', type_toast = Error\<rparr>]"
proof -
  have h1: "blank (title_form (form blank_title))"
    by (simp add: blank_title_def blank_def trim_def is_whitespace_def lit_def unat_unit_of)
  have h2: "user blank_title = Some alice"
    by (simp add: blank_title_def signed_in_def)
  have a: "handleSubmit 7 (lit ''t3'') 8 blank_title = blank_title"
    using blank_rejected [where s = blank_title and u = alice and now = 7 and tnow = 8] h1 h2
    by blast
  have h3: "commentInputs blank_comment (lit ''1'') = Some (lit ''   '')"
    by (simp add: blank_comment_def)
  have h4: "blank (lit ''   '')"
    by (simp add: blank_def trim_def is_whitespace_def lit_def unat_unit_of)
  have h5: "user blank_comment = Some alice"
    by (simp add: blank_comment_def signed_in_def)
  have b: "handleCommentSubmit (lit ''1'') 7 (lit ''t3'') 8 blank_comment = blank_comment"
    using blank_rejected [where s = blank_comment and u = alice and i = "(lit ''1'')"
        and input = "(lit ''   '')" and now = 7 and tnow = 8] h3 h4 h5
    by blast
  have h6: "blank (title_form (lib_form lib_initial))"
    by (simp add: lib_initial_def empty_form_def blank_def trim_def)
  have t0: "lib_toasts lib_initial = []"
    by (simp add: lib_initial_def)
  have c: "lib_toasts (lib_handleSubmit sample_getTime 8 True FetchFailed 9 lib_initial)
       = [\<lparr>id_toast = 8, message = lit ''Title and content are required'', type_toast = Error\<rparr>]"
    using blank_rejected [where t = lib_initial and g = sample_getTime and tnow = 8
        and posted = True and reload = FetchFailed and ?tnow2.0 = 9] h6 t0
    by simp
  from h1 h2 a h3 h4 b h6 c show ?thesis by blast
qed

text \<open>
  C8 as stated fails: signed in, a comment of three spaces and a post with a blank title
  are dropped without a word; the queue stays empty.
\<close>

theorem blank_silent_counterexample:
  "user blank_comment = Some alice
   \<and> commentInputs blank_comment (lit ''1'') = Some (lit ''   '')
   \<and> toasts blank_comment = []
   \<and> toasts (handleCommentSubmit (lit ''1'') 7 (lit ''t3'') 8 blank_comment) = []
   \<and> user blank_title = Some alice
   \<and> title_form (form blank_title) = lit ''  ''
   \<and> toasts blank_title = []
   \<and> toasts (handleSubmit 7 (lit ''t3'') 8 blank_title) = []"
  by (simp add: blank_comment_def blank_title_def signed_in_def initial_def
      handleCommentSubmit_def handleSubmit_def blank_def trim_def is_whitespace_def lit_def unat_unit_of)

end
